theory Spec2Isabelle
  imports Complex_Main "HOL-Library.Sublist"
begin

section \<open>Data model of \<open>pattern_recognition.py\<close>\<close>

text \<open>
  Python floats are modelled as \<open>real\<close> (finite values, exact arithmetic); Python
  integers as \<open>int\<close>.  The string-valued tags of the dataclasses (\<open>kind\<close>,
  \<open>direction\<close>, \<open>wave_type\<close>) take only the values the code ever writes and are
  datatypes.  Every operation of the source that can raise is a branch of the
  model: a result is \<open>Inl\<close> of the exception or \<open>Inr\<close> of the value.
\<close>

datatype py_error = IndexError | ValueError | ZeroDivisionError

datatype ext_kind = Maximum | Minimum

datatype dir = Up | Down

datatype wtype = Unknown | Impulse | Correction

record extremum =
  index :: int
  time :: real
  price :: real
  kind :: ext_kind

text \<open>The fields \<open>start\<close> and \<open>end\<close> of \<open>Wave\<close> are \<open>wstart\<close> and \<open>wend\<close> here.\<close>

record wave =
  idx :: nat
  wstart :: extremum
  wend :: extremum
  amplitude :: real
  duration :: real
  angle :: real
  velocity :: real
  direction :: dir
  wave_type :: wtype

record structural_triple =
  w1 :: wave
  w2 :: wave
  w3 :: wave
  correction_ratio :: real
  quality_score :: real
  phase :: int
  is_valid :: bool

text \<open>The literal \<open>1e-9\<close> of the source.\<close>

definition eps :: real where
  "eps = 1 / 1000000000"

text \<open>Python's \<open>a / b\<close> on floats raises \<open>ZeroDivisionError\<close> when \<open>b\<close> is zero.\<close>

definition py_truediv :: "real \<Rightarrow> real \<Rightarrow> py_error + real" where
  "py_truediv a b = (if b = 0 then Inl ZeroDivisionError else Inr (a / b))"

section \<open>Module 4: \<open>WaveBuilder.build\<close>\<close>

text \<open>
  One iteration of the loop body for the pair \<open>s = extrema[j]\<close>, \<open>e = extrema[j + 1]\<close>.
  \<open>abs(e.time - s.time) or 1e-9\<close> is \<open>1e-9\<close> exactly when the difference is zero.
\<close>

definition build_wave :: "nat \<Rightarrow> extremum \<Rightarrow> extremum \<Rightarrow> py_error + wave" where
  "build_wave j s e =
     (let A = \<bar>price e - price s\<bar>;
          T = (if \<bar>time e - time s\<bar> = 0 then eps else \<bar>time e - time s\<bar>)
      in case py_truediv A T of
           Inl err \<Rightarrow> Inl err
         | Inr q \<Rightarrow>
             Inr \<lparr>idx = j, wstart = s, wend = e, amplitude = A, duration = T,
                  angle = arctan q, velocity = q,
                  direction = (if price e > price s then Up else Down),
                  wave_type = Unknown\<rparr>)"

text \<open>The loop \<open>for j in range(len(extrema) - 1)\<close>, with \<open>j\<close> counted from the argument.\<close>

fun build_from :: "nat \<Rightarrow> extremum list \<Rightarrow> py_error + wave list" where
  "build_from j (s # e # rest) =
     (case build_wave j s e of
        Inl err \<Rightarrow> Inl err
      | Inr w \<Rightarrow>
          (case build_from (Suc j) (e # rest) of
             Inl err \<Rightarrow> Inl err
           | Inr ws \<Rightarrow> Inr (w # ws)))"
| "build_from j [s] = Inr []"
| "build_from j [] = Inr []"

definition build :: "extremum list \<Rightarrow> py_error + wave list" where
  "build extrema = build_from 0 extrema"

section \<open>Modules 1 and 2: \<open>DataProcessor\<close>\<close>

text \<open>
  The data frame with its columns \<open>time\<close>, \<open>close\<close> and, once smoothed, \<open>smooth\<close>.
\<close>

record frame =
  df_time :: "real list"
  df_close :: "real list"
  df_smooth :: "real list option"

text \<open>
  \<open>load_series\<close>: the default times are \<open>np.arange(len(prices))\<close>.  Building a
  pandas frame from two columns of different lengths raises \<open>ValueError\<close>.
\<close>

definition load_series :: "real list \<Rightarrow> real list option \<Rightarrow> py_error + frame" where
  "load_series prices tms =
     (let ts = (case tms of None \<Rightarrow> map real [0..<length prices] | Some t \<Rightarrow> t)
      in if length ts \<noteq> length prices then Inl ValueError
         else Inr \<lparr>df_time = ts, df_close = prices, df_smooth = None\<rparr>)"

text \<open>
  \<open>pd.Series(p).ewm(span=w, adjust=False).mean()\<close>: \<open>y\<^sub>0 = x\<^sub>0\<close> and
  \<open>y\<^sub>t = (1 - a) y\<^sub>t\<^sub>-\<^sub>1 + a x\<^sub>t\<close> with \<open>a = 2 / (span + 1)\<close>.
\<close>

fun ewm_from :: "real \<Rightarrow> real \<Rightarrow> real list \<Rightarrow> real list" where
  "ewm_from a y [] = []"
| "ewm_from a y (x # xs) = ((1 - a) * y + a * x) # ewm_from a ((1 - a) * y + a * x) xs"

definition ewm_mean :: "int \<Rightarrow> real list \<Rightarrow> real list" where
  "ewm_mean sp p =
     (case p of [] \<Rightarrow> [] | x # xs \<Rightarrow> x # ewm_from (2 / (real_of_int sp + 1)) x xs)"

text \<open>
  The two SciPy filters are library code outside the repository.  Their numeric
  results are parameters of the model: \<open>gaussian_filter1d lib p sigma\<close> and
  \<open>savgol_fit lib p window_length polyorder\<close>.  Of \<open>scipy.signal.savgol_filter\<close> the
  two argument checks of its documentation are written out: \<open>polyorder\<close> must be
  less than \<open>window_length\<close>, and in the default mode \<open>interp\<close> the window must not
  be longer than the data; each raises \<open>ValueError\<close>.
\<close>

record scipy =
  gaussian_filter1d :: "real list \<Rightarrow> real \<Rightarrow> py_error + real list"
  savgol_fit :: "real list \<Rightarrow> int \<Rightarrow> int \<Rightarrow> py_error + real list"

definition savgol_filter :: "scipy \<Rightarrow> real list \<Rightarrow> int \<Rightarrow> int \<Rightarrow> py_error + real list" where
  "savgol_filter lib p window_length polyorder =
     (if polyorder \<ge> window_length then Inl ValueError
      else if window_length > int (length p) then Inl ValueError
      else savgol_fit lib p window_length polyorder)"

text \<open>
  \<open>DataProcessor.smooth\<close>.  Assigning the column \<open>smooth\<close> raises \<open>ValueError\<close> when
  its length is not the frame's.
\<close>

definition smooth :: "scipy \<Rightarrow> string \<Rightarrow> int \<Rightarrow> int \<Rightarrow> frame \<Rightarrow> py_error + frame" where
  "smooth lib method window poly df =
     (let p = df_close df;
          w = max window 5;
          s = (if method = ''ema'' then Inr (ewm_mean w p)
               else if method = ''gaussian'' then gaussian_filter1d lib p (real_of_int w / 4)
               else (let wl = (if w mod 2 = 1 then w else w + 1);
                         wl2 = max wl (poly + 2)
                     in savgol_filter lib p wl2 poly))
      in case s of
           Inl err \<Rightarrow> Inl err
         | Inr sm \<Rightarrow>
             if length sm \<noteq> length p then Inl ValueError
             else Inr (df\<lparr>df_smooth := Some sm\<rparr>))"

section \<open>Module 3: \<open>ExtremaDetector\<close>\<close>

text \<open>
  \<open>np.diff(p, prepend=p[0])\<close>: reading \<open>p[0]\<close> of an empty array raises
  \<open>IndexError\<close>; otherwise \<open>delta[0] = 0\<close> and \<open>delta[i] = p[i] - p[i - 1]\<close>.
\<close>

definition np_diff_prepend :: "real list \<Rightarrow> py_error + real list" where
  "np_diff_prepend p =
     (case p of
        [] \<Rightarrow> Inl IndexError
      | x # xs \<Rightarrow> Inr (map2 (\<lambda>a b. b - a) (x # p) p))"

text \<open>
  The body of \<open>for i in range(1, len(p) - 1)\<close> on the loop state
  \<open>(extrema, last_idx)\<close>.  Both \<open>i\<close> and \<open>i + 1\<close> are below \<open>len(p)\<close> there.
\<close>

definition scan_step ::
  "int \<Rightarrow> real list \<Rightarrow> real list \<Rightarrow> extremum list \<times> int \<Rightarrow> nat \<Rightarrow> extremum list \<times> int" where
  "scan_step min_distance p delta st i =
     (case st of (extrema, last_idx) \<Rightarrow>
        if int i - last_idx < min_distance then (extrema, last_idx)
        else if delta ! i > 0 \<and> delta ! (i + 1) < 0 then
          (extrema @ [\<lparr>index = int i, time = real i, price = p ! i, kind = Maximum\<rparr>], int i)
        else if delta ! i < 0 \<and> delta ! (i + 1) > 0 then
          (extrema @ [\<lparr>index = int i, time = real i, price = p ! i, kind = Minimum\<rparr>], int i)
        else (extrema, last_idx))"

definition scan :: "int \<Rightarrow> real list \<Rightarrow> real list \<Rightarrow> extremum list" where
  "scan min_distance p delta =
     fst (foldl (scan_step min_distance p delta) ([], - min_distance) [1..<length p - 1])"

text \<open>
  \<open>_filter_alternating\<close>: the body of \<open>for e in extrema[1:]\<close> on the list
  \<open>filtered\<close>, which is never empty; \<open>filtered[-1] = e\<close> replaces its last entry.
\<close>

definition alt_step :: "extremum list \<Rightarrow> extremum \<Rightarrow> extremum list" where
  "alt_step filtered e =
     (if kind e = kind (last filtered) then
        (if kind e = Maximum \<and> price e > price (last filtered) then butlast filtered @ [e]
         else if kind e = Minimum \<and> price e < price (last filtered) then butlast filtered @ [e]
         else filtered)
      else filtered @ [e])"

definition filter_alternating :: "extremum list \<Rightarrow> extremum list" where
  "filter_alternating extrema =
     (case extrema of [] \<Rightarrow> [] | e0 # rest \<Rightarrow> foldl alt_step [e0] rest)"

text \<open>
  \<open>detect\<close> reads the column \<open>smooth\<close> when the frame has one, else \<open>close\<close>.  It
  also reads the column \<open>time\<close> into a local variable that it never uses.
\<close>

definition detect_col :: "frame \<Rightarrow> real list" where
  "detect_col df = (case df_smooth df of Some s \<Rightarrow> s | None \<Rightarrow> df_close df)"

definition detect :: "int \<Rightarrow> frame \<Rightarrow> py_error + extremum list" where
  "detect min_distance df =
     (let p = detect_col df
      in case np_diff_prepend p of
           Inl err \<Rightarrow> Inl err
         | Inr delta \<Rightarrow> Inr (filter_alternating (scan min_distance p delta)))"

text \<open>Strict alternation of kind along a list of extrema.\<close>

fun alternating :: "extremum list \<Rightarrow> bool" where
  "alternating (a # b # rest) = (kind a \<noteq> kind b \<and> alternating (b # rest))"
| "alternating [a] = True"
| "alternating [] = True"

section \<open>Module 5: \<open>WaveClassifier.classify\<close>\<close>

definition np_mean :: "real list \<Rightarrow> real" where
  "np_mean xs = sum_list xs / real (length xs)"

definition classify :: "real \<Rightarrow> real \<Rightarrow> wave list \<Rightarrow> wave list" where
  "classify lambda1 lambda2 waves =
     (if waves = [] then waves
      else let A_mean = np_mean (map amplitude waves);
               V_mean = np_mean (map velocity waves)
           in map (\<lambda>w. if amplitude w > lambda1 * A_mean \<and> velocity w > lambda2 * V_mean
                        then w\<lparr>wave_type := Impulse\<rparr>
                        else w\<lparr>wave_type := Correction\<rparr>) waves)"

section \<open>Modules 6 and 7: \<open>StructuralTripleDetector.find_triples\<close>\<close>

text \<open>The loop body for the window \<open>waves[i], waves[i+1], waves[i+2]\<close>.\<close>

definition make_triple ::
  "real \<Rightarrow> real \<Rightarrow> real \<Rightarrow> wave \<Rightarrow> wave \<Rightarrow> wave \<Rightarrow> py_error + structural_triple" where
  "make_triple alpha r_min r_max a b c =
     (case py_truediv (amplitude b) (amplitude a + eps) of
        Inl err \<Rightarrow> Inl err
      | Inr R \<Rightarrow>
          (let valid = (wave_type a = Impulse \<and> wave_type b = Correction
                        \<and> wave_type c = Impulse
                        \<and> amplitude c \<ge> alpha * amplitude a
                        \<and> r_min \<le> R \<and> R \<le> r_max);
               valid2 = (if direction a = direction b then False else valid)
           in Inr \<lparr>w1 = a, w2 = b, w3 = c, correction_ratio = R, quality_score = 0,
                   phase = 0, is_valid = valid2\<rparr>))"

fun find_triples ::
  "real \<Rightarrow> real \<Rightarrow> real \<Rightarrow> wave list \<Rightarrow> py_error + structural_triple list" where
  "find_triples alpha r_min r_max (a # b # c # rest) =
     (case make_triple alpha r_min r_max a b c of
        Inl err \<Rightarrow> Inl err
      | Inr t \<Rightarrow>
          (case find_triples alpha r_min r_max (b # c # rest) of
             Inl err \<Rightarrow> Inl err
           | Inr ts \<Rightarrow> Inr (t # ts)))"
| "find_triples alpha r_min r_max [a, b] = Inr []"
| "find_triples alpha r_min r_max [a] = Inr []"
| "find_triples alpha r_min r_max [] = Inr []"

section \<open>Module 10: \<open>QualityMetric\<close>\<close>

definition f_ratio :: "structural_triple \<Rightarrow> real" where
  "f_ratio triple =
     (let R = correction_ratio triple
      in if 3 / 10 \<le> R \<and> R \<le> 8 / 10 then 1 - \<bar>R - 618 / 1000\<bar> / (318 / 1000)
         else max 0 (1 - \<bar>R - 55 / 100\<bar> / (55 / 100)))"

definition f_symmetry :: "structural_triple \<Rightarrow> py_error + real" where
  "f_symmetry triple =
     (let t1 = duration (w1 triple); t3 = duration (w3 triple);
          denom = max t1 t3 + eps
      in case py_truediv \<bar>t1 - t3\<bar> denom of
           Inl err \<Rightarrow> Inl err
         | Inr q \<Rightarrow> Inr (1 - q))"

definition f_slope :: "structural_triple \<Rightarrow> real" where
  "f_slope triple =
     (let d1 = direction (w1 triple); d3 = direction (w3 triple);
          d2 = direction (w2 triple);
          same_impulse = (if d1 = d3 then 1 else 0);
          diff_correct = (if d2 \<noteq> d1 then 1 else 0)
      in (same_impulse + diff_correct) / 2)"

text \<open>The body of the loop of \<open>score\<close> on one triple.\<close>

definition score_triple ::
  "real \<Rightarrow> real \<Rightarrow> real \<Rightarrow> real \<Rightarrow> structural_triple \<Rightarrow> py_error + structural_triple" where
  "score_triple qw1 qw2 qw3 threshold t =
     (case f_symmetry t of
        Inl err \<Rightarrow> Inl err
      | Inr fs \<Rightarrow>
          (let q = qw1 * f_ratio t + qw2 * fs + qw3 * f_slope t
           in Inr (if q < threshold then t\<lparr>quality_score := q, is_valid := False\<rparr>
                   else t\<lparr>quality_score := q\<rparr>)))"

fun score ::
  "real \<Rightarrow> real \<Rightarrow> real \<Rightarrow> real \<Rightarrow> structural_triple list \<Rightarrow> py_error + structural_triple list" where
  "score qw1 qw2 qw3 threshold [] = Inr []"
| "score qw1 qw2 qw3 threshold (t # ts) =
     (case score_triple qw1 qw2 qw3 threshold t of
        Inl err \<Rightarrow> Inl err
      | Inr t2 \<Rightarrow>
          (case score qw1 qw2 qw3 threshold ts of
             Inl err \<Rightarrow> Inl err
           | Inr ts2 \<Rightarrow> Inr (t2 # ts2)))"

section \<open>Module 8: \<open>PhaseModel.assign\<close>\<close>

text \<open>
  The four descriptions of a found structure, as the UTF-8 bytes of the source's
  literals (a dash and a pictograph are outside ASCII).
\<close>

definition desc_phase1 :: string where
  "desc_phase1 = ''Phase 1 '' @ [CHR 0xE2, CHR 0x80, CHR 0x94] @ '' First Impulse ''
                 @ [CHR 0xF0, CHR 0x9F, CHR 0x9A, CHR 0x80]"

definition desc_phase2 :: string where
  "desc_phase2 = ''Phase 2 '' @ [CHR 0xE2, CHR 0x80, CHR 0x94] @ '' Correction ''
                 @ [CHR 0xF0, CHR 0x9F, CHR 0x94, CHR 0x84]"

definition desc_phase3 :: string where
  "desc_phase3 = ''Phase 3 '' @ [CHR 0xE2, CHR 0x80, CHR 0x94] @ '' Continuation Impulse ''
                 @ [CHR 0xF0, CHR 0x9F, CHR 0x93, CHR 0x88]"

definition desc_post :: string where
  "desc_post = ''Phase 3+ '' @ [CHR 0xE2, CHR 0x80, CHR 0x94] @ '' Post-structure zone ''
               @ [CHR 0xF0, CHR 0x9F, CHR 0x94, CHR 0x8D]"

text \<open>
  \<open>assign\<close> returns the pair \<open>(phase, description)\<close> and mutates the triples it
  was given; the model returns the list after the call as a second component.
  The list \<open>valid\<close> holds the very objects of \<open>triples\<close>, so \<open>t.phase = phase\<close> for
  \<open>t\<close> in \<open>valid\<close> changes exactly the entries of \<open>triples\<close> with \<open>is_valid\<close>.
\<close>

definition assign ::
  "structural_triple list \<Rightarrow> int \<Rightarrow> (int \<times> string) \<times> structural_triple list" where
  "assign triples current_idx =
     (let valid = filter is_valid triples
      in if valid = [] then ((0, ''No valid structure found''), triples)
         else
           (let lst = last valid;
                w1_end = index (wend (w1 lst));
                w2_end = index (wend (w2 lst));
                w3_end = index (wend (w3 lst));
                pd = (if current_idx \<le> w1_end then (1, desc_phase1)
                      else if current_idx \<le> w2_end then (2, desc_phase2)
                      else if current_idx \<le> w3_end then (3, desc_phase3)
                      else (3, desc_post))
            in (pd, map (\<lambda>t. if is_valid t then t\<lparr>phase := fst pd\<rparr> else t) triples)))"

section \<open>Module 9: \<open>FractalityAnalyzer.self_similarity\<close>\<close>

text \<open>
  \<open>np.std(ratios) / (np.mean(ratios) + 1e-9)\<close> divides NumPy floats: a zero divisor
  raises nothing and gives an infinity or NaN.  Only here does the model keep the
  non-finite values, with the comparison \<open>cv < 0.3\<close> as IEEE 754 defines it.
\<close>

datatype np_float = Finite real | PosInf | NegInf | NaN

definition np_divide :: "real \<Rightarrow> real \<Rightarrow> np_float" where
  "np_divide a b =
     (if b \<noteq> 0 then Finite (a / b)
      else if a > 0 then PosInf else if a < 0 then NegInf else NaN)"

fun np_less :: "np_float \<Rightarrow> real \<Rightarrow> bool" where
  "np_less (Finite x) c = (x < c)"
| "np_less PosInf c = False"
| "np_less NegInf c = True"
| "np_less NaN c = False"

definition np_std :: "real list \<Rightarrow> real" where
  "np_std xs = sqrt (np_mean (map (\<lambda>x. (x - np_mean xs)\<^sup>2) xs))"

definition np_median :: "real list \<Rightarrow> real" where
  "np_median xs =
     (let s = sort xs; n = length s
      in if n mod 2 = 1 then s ! (n div 2)
         else (s ! (n div 2 - 1) + s ! (n div 2)) / 2)"

text \<open>
  The result dictionary: the keys \<open>cv\<close> and \<open>n_pairs\<close> are absent (\<open>None\<close> here) on
  the two early returns, and \<open>coefficient\<close> is Python's \<open>None\<close> there.
\<close>

record fractal_result =
  coefficient :: "real option"
  cv :: "np_float option"
  stable :: bool
  n_pairs :: "nat option"

text \<open>The nested loops; the guard \<open>w2.amplitude > 1e-9\<close> keeps the divisor non-zero.\<close>

definition collect_ratios :: "wave list \<Rightarrow> wave list \<Rightarrow> real list" where
  "collect_ratios waves_tf1 waves_tf2 =
     concat (map (\<lambda>a. map (\<lambda>b. amplitude a / amplitude b)
                            (filter (\<lambda>b. amplitude b > eps) waves_tf2)) waves_tf1)"

definition self_similarity :: "wave list \<Rightarrow> wave list \<Rightarrow> fractal_result" where
  "self_similarity waves_tf1 waves_tf2 =
     (if waves_tf1 = [] \<or> waves_tf2 = [] then
        \<lparr>coefficient = None, cv = None, stable = False, n_pairs = None\<rparr>
      else
        (let ratios = collect_ratios waves_tf1 waves_tf2
         in if ratios = [] then
              \<lparr>coefficient = None, cv = None, stable = False, n_pairs = None\<rparr>
            else
              (let coeff = np_median ratios;
                   c = np_divide (np_std ratios) (np_mean ratios + eps)
               in \<lparr>coefficient = Some coeff, cv = Some c, stable = np_less c (3 / 10),
                    n_pairs = Some (length ratios)\<rparr>)))"

section \<open>The orchestrator \<open>PatternSystem\<close>\<close>

text \<open>
  The keyword arguments of \<open>PatternSystem.__init__\<close>, which stores them in its
  components and checks none of them.
\<close>

record config =
  smooth_method :: string
  smooth_window :: int
  smooth_poly :: int
  min_ext_dist :: int
  lambda1 :: real
  lambda2 :: real
  alpha :: real
  r_min :: real
  r_max :: real
  quality_w1 :: real
  quality_w2 :: real
  quality_w3 :: real
  quality_thresh :: real

definition default_config :: config where
  "default_config =
     \<lparr>smooth_method = ''savgol'', smooth_window = 11, smooth_poly = 3, min_ext_dist = 3,
      lambda1 = 85 / 100, lambda2 = 70 / 100, alpha = 618 / 1000,
      r_min = 30 / 100, r_max = 80 / 100,
      quality_w1 = 40 / 100, quality_w2 = 30 / 100, quality_w3 = 30 / 100,
      quality_thresh = 55 / 100\<rparr>"

text \<open>
  The analytic results of \<open>run\<close>.  The text report and the Plotly figure, which
  \<open>run\<close> builds from them last, are presentation and are not modelled.
\<close>

record run_result =
  dataframe :: frame
  extrema :: "extremum list"
  waves :: "wave list"
  triples :: "structural_triple list"
  valid_triples :: "structural_triple list"
  current_phase :: int
  phase_desc :: string

definition run :: "scipy \<Rightarrow> config \<Rightarrow> real list \<Rightarrow> real list option \<Rightarrow> py_error + run_result" where
  "run lib cfg prices tms =
     (case load_series prices tms of
        Inl err \<Rightarrow> Inl err
      | Inr df0 \<Rightarrow>
     (case smooth lib (smooth_method cfg) (smooth_window cfg) (smooth_poly cfg) df0 of
        Inl err \<Rightarrow> Inl err
      | Inr df \<Rightarrow>
     (case detect (min_ext_dist cfg) df of
        Inl err \<Rightarrow> Inl err
      | Inr es \<Rightarrow>
     (case build es of
        Inl err \<Rightarrow> Inl err
      | Inr ws0 \<Rightarrow>
     (let ws = classify (lambda1 cfg) (lambda2 cfg) ws0
      in case find_triples (alpha cfg) (r_min cfg) (r_max cfg) ws of
        Inl err \<Rightarrow> Inl err
      | Inr ts0 \<Rightarrow>
     (case score (quality_w1 cfg) (quality_w2 cfg) (quality_w3 cfg) (quality_thresh cfg) ts0 of
        Inl err \<Rightarrow> Inl err
      | Inr ts1 \<Rightarrow>
     (case assign ts1 (int (length (df_close df)) - 1) of
        (pd, ts) \<Rightarrow>
          Inr \<lparr>dataframe = df, extrema = es, waves = ws, triples = ts,
               valid_triples = filter is_valid ts,
               current_phase = fst pd, phase_desc = snd pd\<rparr>)))))))"

section \<open>Auxiliary predicates and sample inputs\<close>

text \<open>
  What the scan of \<open>detect\<close> guarantees of its extrema: positions strictly
  increase along the list, and each \<open>time\<close> is the position.
\<close>

definition scan_inv :: "extremum list \<Rightarrow> bool" where
  "scan_inv es =
     (sorted_wrt (<) (map index es) \<and> (\<forall>e\<in>set es. time e = real_of_int (index e)))"

text \<open>A five-bar zigzag with time stamps that are not the positions.\<close>

definition zigzag_frame :: frame where
  "zigzag_frame =
     \<lparr>df_time = [10, 20, 40, 80, 160], df_close = [0, 5, 1, 7, 2], df_smooth = None\<rparr>"

definition zigzag_extrema :: "extremum list" where
  "zigzag_extrema =
     [\<lparr>index = 1, time = 1, price = 5, kind = Maximum\<rparr>,
      \<lparr>index = 2, time = 2, price = 1, kind = Minimum\<rparr>,
      \<lparr>index = 3, time = 3, price = 7, kind = Maximum\<rparr>]"

text \<open>A three-bar series with a single peak.\<close>

definition peak_frame :: frame where
  "peak_frame = \<lparr>df_time = [0, 1, 2], df_close = [0, 1, 0], df_smooth = None\<rparr>"

definition peak_extremum :: extremum where
  "peak_extremum = \<lparr>index = 1, time = 1, price = 1, kind = Maximum\<rparr>"

text \<open>The structural conditions that \<open>find_triples\<close> checks of a window.\<close>

definition structural :: "real \<Rightarrow> real \<Rightarrow> real \<Rightarrow> structural_triple \<Rightarrow> bool" where
  "structural al rmin rmax t =
     (wave_type (w1 t) = Impulse \<and> wave_type (w2 t) = Correction \<and> wave_type (w3 t) = Impulse
      \<and> al * amplitude (w1 t) \<le> amplitude (w3 t)
      \<and> rmin \<le> correction_ratio t \<and> correction_ratio t \<le> rmax
      \<and> direction (w1 t) \<noteq> direction (w2 t))"

text \<open>
  Scenario 2 of the specification: amplitudes 100, 61.8 and 100, directions up,
  down, up, classified impulse, correction, impulse.  These are the waves that
  \<open>build\<close> and \<open>classify\<close> make of four extrema at the prices 0, 100, 38.2 and
  138.2, three bars apart.
\<close>

definition scenario2_w1 :: wave where
  "scenario2_w1 =
     \<lparr>idx = 0,
      wstart = \<lparr>index = 1, time = 1, price = 0, kind = Minimum\<rparr>,
      wend = \<lparr>index = 4, time = 4, price = 100, kind = Maximum\<rparr>,
      amplitude = 100, duration = 3, angle = arctan (100 / 3), velocity = 100 / 3,
      direction = Up, wave_type = Impulse\<rparr>"

definition scenario2_w2 :: wave where
  "scenario2_w2 =
     \<lparr>idx = 1,
      wstart = \<lparr>index = 4, time = 4, price = 100, kind = Maximum\<rparr>,
      wend = \<lparr>index = 7, time = 7, price = 382 / 10, kind = Minimum\<rparr>,
      amplitude = 618 / 10, duration = 3, angle = arctan (206 / 10), velocity = 206 / 10,
      direction = Down, wave_type = Correction\<rparr>"

definition scenario2_w3 :: wave where
  "scenario2_w3 =
     \<lparr>idx = 2,
      wstart = \<lparr>index = 7, time = 7, price = 382 / 10, kind = Minimum\<rparr>,
      wend = \<lparr>index = 10, time = 10, price = 1382 / 10, kind = Maximum\<rparr>,
      amplitude = 100, duration = 3, angle = arctan (100 / 3), velocity = 100 / 3,
      direction = Up, wave_type = Impulse\<rparr>"

text \<open>The triples of scenario 2 under the default parameters, before and after scoring.\<close>

definition scenario2_triples :: "structural_triple list" where
  "scenario2_triples =
     projr (find_triples (618 / 1000) (3 / 10) (8 / 10) [scenario2_w1, scenario2_w2, scenario2_w3])"

definition scenario2_scored :: "structural_triple list" where
  "scenario2_scored =
     projr (score (4 / 10) (3 / 10) (3 / 10) (55 / 100) scenario2_triples)"

text \<open>
  SciPy filters that return their input; under the method \<open>ema\<close> neither is called.
\<close>

definition identity_filters :: scipy where
  "identity_filters = \<lparr>gaussian_filter1d = (\<lambda>p sigma. Inr p), savgol_fit = (\<lambda>p wl po. Inr p)\<rparr>"

definition ema_config :: config where
  "ema_config = default_config\<lparr>smooth_method := ''ema''\<rparr>"

text \<open>
  Twelve prices whose exponential average with span 11 is
  10, 0, 30, 60, 100, 90, 70, 50, 60, -60, -50, -55.
\<close>

definition reversal_prices :: "real list" where
  "reversal_prices = [10, - 50, 180, 210, 300, 40, - 30, - 50, 110, - 660, 0, - 80]"

text \<open>The triple \<open>last = valid[-1]\<close> of \<open>assign\<close>: the last valid one in list order.\<close>

definition last_valid :: "structural_triple list \<Rightarrow> structural_triple" where
  "last_valid ts = last (filter is_valid ts)"

text \<open>
  Sample waves and triples for \<open>assign\<close>, which reads of a triple only \<open>is_valid\<close>
  and the positions at which its three waves end.
\<close>

definition bar_wave :: "int \<Rightarrow> int \<Rightarrow> wave" where
  "bar_wave i j =
     \<lparr>idx = 0,
      wstart = \<lparr>index = i, time = real_of_int i, price = 0, kind = Minimum\<rparr>,
      wend = \<lparr>index = j, time = real_of_int j, price = 1, kind = Maximum\<rparr>,
      amplitude = 1, duration = real_of_int (j - i), angle = arctan (1 / real_of_int (j - i)),
      velocity = 1 / real_of_int (j - i), direction = Up, wave_type = Impulse\<rparr>"

definition late_triple :: structural_triple where
  "late_triple =
     \<lparr>w1 = bar_wave 0 10, w2 = bar_wave 10 20, w3 = bar_wave 20 30,
      correction_ratio = 1 / 2, quality_score = 1, phase = 0, is_valid = True\<rparr>"

definition early_triple :: structural_triple where
  "early_triple =
     \<lparr>w1 = bar_wave 0 1, w2 = bar_wave 1 2, w3 = bar_wave 2 3,
      correction_ratio = 1 / 2, quality_score = 1, phase = 0, is_valid = True\<rparr>"

text \<open>What \<open>build\<close> guarantees of a wave, and what keeps the later divisions defined.\<close>

definition wave_ok :: "wave \<Rightarrow> bool" where
  "wave_ok w = (0 \<le> amplitude w \<and> 0 < duration w)"

section \<open>Properties of \<open>WaveBuilder.build\<close>\<close>

lemma eps_pos: "0 < eps"
  by (simp add: eps_def)

lemma build_wave_total: "\<exists>w. build_wave j s e = Inr w"
  using eps_pos by (auto simp: build_wave_def py_truediv_def Let_def)

lemma build_from_total:
  "\<exists>ws. build_from j es = Inr ws \<and> length ws = length es - 1"
proof (induction j es rule: build_from.induct)
  case (1 j s e rest)
  obtain w where w: "build_wave j s e = Inr w"
    using build_wave_total by blast
  from 1 [OF w] obtain ws where
    ws: "build_from (Suc j) (e # rest) = Inr ws" "length ws = length (e # rest) - 1"
    by blast
  show ?case using w ws by simp
qed simp_all

text \<open>
  C4.  For every list of extrema \<open>WaveBuilder.build\<close> returns (it raises nothing) a
  list of exactly \<open>max (len extrema - 1) 0\<close> waves; with fewer than two extrema the
  list is empty.
\<close>

theorem build_wave_count:
  "\<exists>ws. build es = Inr ws
      \<and> int (length ws) = max (int (length es) - 1) 0
      \<and> (length es < 2 \<longrightarrow> ws = [])"
proof -
  obtain ws where ws: "build_from 0 es = Inr ws" "length ws = length es - 1"
    using build_from_total by blast
  have "int (length ws) = max (int (length es) - 1) 0"
    using ws(2) by (cases es) simp_all
  moreover have "length es < 2 \<longrightarrow> ws = []"
    using ws(2) by auto
  ultimately show ?thesis
    using ws(1) by (simp add: build_def)
qed

theorem build_wave_count_witness:
  "length [\<lparr>index = 1, time = 1, price = 0, kind = Minimum\<rparr>] < 2
   \<and> build [\<lparr>index = 1, time = 1, price = 0, kind = Minimum\<rparr>] = Inr []"
  using build_wave_count [of "[\<lparr>index = 1, time = 1, price = 0, kind = Minimum\<rparr>]"]
  by auto


section \<open>Properties of \<open>ExtremaDetector\<close>\<close>

subsection \<open>The alternation filter\<close>

lemma alternating_snoc:
  "alternating (xs @ [e]) = (alternating xs \<and> (xs = [] \<or> kind (last xs) \<noteq> kind e))"
  by (induction xs rule: alternating.induct) auto

lemma alternating_butlast: "alternating xs \<Longrightarrow> alternating (butlast xs)"
  by (induction xs rule: alternating.induct) auto

lemma alternating_replace_last:
  assumes "alternating xs" and "xs \<noteq> []" and "kind e = kind (last xs)"
  shows "alternating (butlast xs @ [e])"
proof -
  from assms(2) obtain ys y where xs: "xs = ys @ [y]"
    by (metis append_butlast_last_id)
  with assms(1) have "alternating ys" and "ys = [] \<or> kind (last ys) \<noteq> kind y"
    by (simp_all add: alternating_snoc)
  with assms(3) xs show ?thesis
    by (simp add: alternating_snoc)
qed

lemma alt_step_nonempty: "filtered \<noteq> [] \<Longrightarrow> alt_step filtered e \<noteq> []"
  by (simp add: alt_step_def)

lemma alt_step_alternating:
  assumes "alternating filtered" and "filtered \<noteq> []"
  shows "alternating (alt_step filtered e)"
proof (cases "kind e = kind (last filtered)")
  case True
  then have "alternating (butlast filtered @ [e])"
    using assms by (intro alternating_replace_last)
  then show ?thesis
    using True assms(1) by (auto simp only: alt_step_def split: if_split)
next
  case False
  then have "alternating (filtered @ [e])"
    using assms by (simp add: alternating_snoc)
  then show ?thesis
    using False by (simp only: alt_step_def if_False)
qed

lemma foldl_alt_step_alternating:
  "alternating acc \<Longrightarrow> acc \<noteq> [] \<Longrightarrow> alternating (foldl alt_step acc rest)"
  by (induction rest arbitrary: acc) (simp_all add: alt_step_alternating alt_step_nonempty)

lemma foldl_alt_step_nonempty: "acc \<noteq> [] \<Longrightarrow> foldl alt_step acc rest \<noteq> []"
  by (induction rest arbitrary: acc) (simp_all add: alt_step_nonempty)

lemma filter_alternating_alternating: "alternating (filter_alternating es)"
  by (cases es) (simp_all add: filter_alternating_def foldl_alt_step_alternating)

lemma filter_alternating_Nil_iff: "filter_alternating es = [] \<longleftrightarrow> es = []"
  by (cases es) (simp_all add: filter_alternating_def foldl_alt_step_nonempty)

lemma filter_alternating_single: "filter_alternating [e] = [e]"
  by (simp add: filter_alternating_def)

lemma detect_returns:
  "detect_col df \<noteq> [] \<Longrightarrow> \<exists>es. detect md df = Inr es"
  by (cases "detect_col df") (simp_all add: detect_def np_diff_prepend_def Let_def)

lemma detect_Inr:
  "detect md df = Inr es \<Longrightarrow>
     \<exists>delta. np_diff_prepend (detect_col df) = Inr delta
        \<and> es = filter_alternating (scan md (detect_col df) delta)"
  by (auto simp: detect_def Let_def split: sum.splits)


lemma alt_step_subseq: "filtered \<noteq> [] \<Longrightarrow> subseq (alt_step filtered e) (filtered @ [e])"
proof -
  assume ne: "filtered \<noteq> []"
  have "subseq (butlast filtered @ [e]) (butlast filtered @ ([last filtered] @ [e]))"
    unfolding subseq_append' by simp
  moreover have "butlast filtered @ ([last filtered] @ [e]) = filtered @ [e]"
    using ne by simp
  ultimately have "subseq (butlast filtered @ [e]) (filtered @ [e])"
    by (simp only:)
  moreover have "subseq filtered (filtered @ [e])"
    by (rule subseq_rev_drop_many) simp
  ultimately show ?thesis
    by (auto simp only: alt_step_def split: if_split)
qed

lemma foldl_alt_step_subseq:
  "acc \<noteq> [] \<Longrightarrow> subseq (foldl alt_step acc rest) (acc @ rest)"
proof (induction rest arbitrary: acc)
  case Nil
  then show ?case by simp
next
  case (Cons e rest)
  have "subseq (foldl alt_step (alt_step acc e) rest) (alt_step acc e @ rest)"
    using Cons.IH [OF alt_step_nonempty [OF Cons.prems]] .
  moreover have "subseq (alt_step acc e @ rest) ((acc @ [e]) @ rest)"
    using alt_step_subseq [OF Cons.prems] by (rule list_emb_append_mono) simp
  ultimately show ?case
    using subseq_order.order_trans by fastforce
qed

lemma filter_alternating_subseq: "subseq (filter_alternating es) es"
proof (cases es)
  case Nil
  then show ?thesis by (simp add: filter_alternating_def)
next
  case (Cons e0 rest)
  have "subseq (foldl alt_step [e0] rest) ([e0] @ rest)"
    by (rule foldl_alt_step_subseq) simp
  then show ?thesis
    using Cons by (simp add: filter_alternating_def)
qed

subsection \<open>Positions and times of the scanned extrema\<close>

lemma scan_step_cases:
  "fst (scan_step md p d st i) = fst st
   \<or> (\<exists>e. fst (scan_step md p d st i) = fst st @ [e] \<and> index e = int i \<and> time e = real i)"
  by (cases st) (simp add: scan_step_def)

lemma scan_inv_snoc:
  "scan_inv es \<Longrightarrow> \<forall>x\<in>set es. index x < index e \<Longrightarrow> time e = real_of_int (index e)
     \<Longrightarrow> scan_inv (es @ [e])"
  by (auto simp: scan_inv_def sorted_wrt_append)

lemma foldl_scan_step_inv:
  "scan_inv (fst st) \<Longrightarrow> sorted_wrt (<) ns \<Longrightarrow> \<forall>x\<in>set (fst st). \<forall>n\<in>set ns. index x < int n
     \<Longrightarrow> scan_inv (fst (foldl (scan_step md p d) st ns))"
proof (induction ns arbitrary: st)
  case Nil
  then show ?case by simp
next
  case (Cons n ns)
  let ?st = "scan_step md p d st n"
  have inv: "scan_inv (fst ?st)"
  proof -
    from scan_step_cases [of md p d st n] show ?thesis
    proof
      assume "fst ?st = fst st"
      with Cons.prems(1) show ?thesis by simp
    next
      assume "\<exists>e. fst ?st = fst st @ [e] \<and> index e = int n \<and> time e = real n"
      then obtain e where e: "fst ?st = fst st @ [e]" "index e = int n" "time e = real n"
        by blast
      have "scan_inv (fst st @ [e])"
        using Cons.prems(1,3) e(2,3) by (intro scan_inv_snoc) simp_all
      with e(1) show ?thesis by simp
    qed
  qed
  have below: "\<forall>x\<in>set (fst ?st). \<forall>m\<in>set ns. index x < int m"
    using scan_step_cases [of md p d st n] Cons.prems(2,3) by auto
  have "sorted_wrt (<) ns"
    using Cons.prems(2) by simp
  from Cons.IH [OF inv this below] show ?case by simp
qed

lemma scan_inv_scan: "scan_inv (scan md p d)"
  unfolding scan_def
  by (rule foldl_scan_step_inv) (simp_all add: scan_inv_def)

lemma subseq_set_mono: "subseq xs ys \<Longrightarrow> set xs \<subseteq> set ys"
  by (induction rule: list_emb.induct) auto

lemma subseq_sorted_wrt: "subseq xs ys \<Longrightarrow> sorted_wrt P ys \<Longrightarrow> sorted_wrt P xs"
proof (induction rule: list_emb.induct)
  case (list_emb_Cons2 x y xs ys)
  then show ?case
    using subseq_set_mono [of xs ys] by auto
qed simp_all

lemma scan_inv_subseq: "subseq xs ys \<Longrightarrow> scan_inv ys \<Longrightarrow> scan_inv xs"
proof -
  assume s: "subseq xs ys" and i: "scan_inv ys"
  have "subseq (map index xs) (map index ys)"
    using s by (rule subseq_map)
  moreover have "sorted_wrt (<) (map index ys)"
    using i by (simp add: scan_inv_def)
  ultimately have "sorted_wrt (<) (map index xs)"
    by (rule subseq_sorted_wrt)
  moreover have "set xs \<subseteq> set ys"
    using s by (rule subseq_set_mono)
  ultimately show ?thesis
    using i by (auto simp: scan_inv_def)
qed

lemma scan_inv_detect:
  assumes "detect md df = Inr es"
  shows "scan_inv es"
proof -
  from detect_Inr [OF assms] obtain delta where
    es: "es = filter_alternating (scan md (detect_col df) delta)"
    by blast
  show ?thesis
    unfolding es by (rule scan_inv_subseq [OF filter_alternating_subseq scan_inv_scan])
qed

lemma build_wave_fields:
  "build_wave j s e = Inr w \<Longrightarrow>
     wstart w = s \<and> wend w = e \<and> amplitude w = \<bar>price e - price s\<bar>
     \<and> duration w = (if \<bar>time e - time s\<bar> = 0 then eps else \<bar>time e - time s\<bar>)"
  by (auto simp: build_wave_def py_truediv_def Let_def split: if_splits)


lemmas detect_eval = detect_def detect_col_def np_diff_prepend_def scan_def scan_step_def
  filter_alternating_def alt_step_def Let_def upt_conv_Cons
  zigzag_frame_def zigzag_extrema_def peak_frame_def peak_extremum_def

text \<open>
  C2.  For every input series the extrema that \<open>ExtremaDetector.detect\<close> returns
  strictly alternate in kind; it returns them for every series that is not empty.
\<close>

theorem detect_alternates:
  "(detect_col df \<noteq> [] \<longrightarrow> (\<exists>es. detect md df = Inr es))
   \<and> (\<forall>es. detect md df = Inr es \<longrightarrow> alternating es)"
  using detect_returns detect_Inr filter_alternating_alternating by blast

theorem detect_alternates_witness:
  "detect_col zigzag_frame \<noteq> [] \<and> detect 1 zigzag_frame = Inr zigzag_extrema
   \<and> alternating zigzag_extrema"
  using detect_alternates [where md = 1 and df = zigzag_frame]
  by (simp add: detect_eval)

text \<open>
  C9, as the code has it.  The claim that \<open>detect\<close> never returns a single extremum
  fails on the three-bar peak.
\<close>

theorem detect_singleton_counterexample:
  "detect 3 peak_frame = Inr [peak_extremum]"
  by (simp add: detect_eval)

text \<open>
  C9, amended.  \<open>detect\<close> returns the empty list exactly when its scan accepts no
  extremum; a single accepted extremum is returned as a list of one; and from at
  most one extremum \<open>WaveBuilder.build\<close> builds no wave.
\<close>

theorem detect_empty_iff:
  "detect md df = Inr es \<Longrightarrow> np_diff_prepend (detect_col df) = Inr delta \<Longrightarrow>
     (es = [] \<longleftrightarrow> scan md (detect_col df) delta = [])
     \<and> (\<forall>e. scan md (detect_col df) delta = [e] \<longrightarrow> es = [e])
     \<and> (length es \<le> 1 \<longrightarrow> build es = Inr [])"
proof -
  assume d: "detect md df = Inr es" and n: "np_diff_prepend (detect_col df) = Inr delta"
  have es: "es = filter_alternating (scan md (detect_col df) delta)"
    using d n by (simp add: detect_def Let_def)
  have "length es \<le> 1 \<longrightarrow> build es = Inr []"
  proof (cases es)
    case Nil
    then show ?thesis by (simp add: build_def)
  next
    case (Cons a as)
    then show ?thesis by (cases as) (simp_all add: build_def)
  qed
  then show ?thesis
    using es by (simp add: filter_alternating_Nil_iff filter_alternating_single)
qed

theorem detect_empty_iff_witness:
  "detect 3 peak_frame = Inr [peak_extremum]
   \<and> np_diff_prepend (detect_col peak_frame) = Inr [0, 1, - 1]
   \<and> scan 3 (detect_col peak_frame) [0, 1, - 1] = [peak_extremum]
   \<and> length [peak_extremum] \<le> 1 \<and> build [peak_extremum] = Inr []"
  using detect_empty_iff [where md = 3 and df = peak_frame and es = "[peak_extremum]"
      and delta = "[0, 1, - 1]"]
  by (simp add: detect_eval)



section \<open>Properties of \<open>find_triples\<close> and \<open>QualityMetric.score\<close>\<close>

lemma make_triple_fields:
  "make_triple al rmin rmax a b c = Inr t \<Longrightarrow>
     w1 t = a \<and> w2 t = b \<and> w3 t = c
     \<and> correction_ratio t = amplitude b / (amplitude a + eps)
     \<and> quality_score t = 0 \<and> phase t = 0
     \<and> is_valid t = structural al rmin rmax t"
proof (cases "amplitude a + eps = 0")
  case True
  assume "make_triple al rmin rmax a b c = Inr t"
  with True show ?thesis
    by (simp add: make_triple_def py_truediv_def)
next
  case False
  assume "make_triple al rmin rmax a b c = Inr t"
  with False have t: "t = \<lparr>w1 = a, w2 = b, w3 = c,
      correction_ratio = amplitude b / (amplitude a + eps), quality_score = 0, phase = 0,
      is_valid = (if direction a = direction b then False
                  else (wave_type a = Impulse \<and> wave_type b = Correction
                        \<and> wave_type c = Impulse
                        \<and> amplitude c \<ge> al * amplitude a
                        \<and> rmin \<le> amplitude b / (amplitude a + eps)
                        \<and> amplitude b / (amplitude a + eps) \<le> rmax))\<rparr>"
    by (simp add: make_triple_def py_truediv_def Let_def)
  show ?thesis
    unfolding t structural_def by auto
qed

lemma find_triples_mem:
  "find_triples al rmin rmax ws = Inr ts \<Longrightarrow> t \<in> set ts \<Longrightarrow>
     \<exists>a b c. make_triple al rmin rmax a b c = Inr t \<and> a \<in> set ws \<and> b \<in> set ws \<and> c \<in> set ws"
proof (induction al rmin rmax ws arbitrary: ts rule: find_triples.induct)
  case (1 al rmin rmax a b c rest)
  from "1.prems"(1) obtain t0 ts0 where
    t0: "make_triple al rmin rmax a b c = Inr t0"
    and ts0: "find_triples al rmin rmax (b # c # rest) = Inr ts0"
    and ts: "ts = t0 # ts0"
    by (auto split: sum.splits)
  show ?case
  proof (cases "t = t0")
    case True
    with t0 show ?thesis by auto
  next
    case False
    then have "t \<in> set ts0"
      using "1.prems"(2) ts by simp
    from "1.IH" [OF t0 ts0 this] show ?thesis by auto
  qed
qed simp_all

lemma score_triple_fields:
  "score_triple q1 q2 q3 th t = Inr t2 \<Longrightarrow>
     w1 t2 = w1 t \<and> w2 t2 = w2 t \<and> w3 t2 = w3 t
     \<and> correction_ratio t2 = correction_ratio t \<and> phase t2 = phase t
     \<and> (is_valid t2 \<longleftrightarrow> is_valid t \<and> th \<le> quality_score t2)"
proof (cases "f_symmetry t")
  case (Inl err)
  assume "score_triple q1 q2 q3 th t = Inr t2"
  with Inl show ?thesis
    by (simp add: score_triple_def)
next
  case (Inr fs)
  assume s: "score_triple q1 q2 q3 th t = Inr t2"
  define q where "q = q1 * f_ratio t + q2 * fs + q3 * f_slope t"
  show ?thesis
  proof (cases "q < th")
    case True
    then have "t2 = t\<lparr>quality_score := q, is_valid := False\<rparr>"
      using s Inr by (simp add: score_triple_def Let_def q_def)
    with True show ?thesis by simp
  next
    case False
    then have "t2 = t\<lparr>quality_score := q\<rparr>"
      using s Inr by (simp add: score_triple_def Let_def q_def)
    with False show ?thesis by simp
  qed
qed

lemma score_mem:
  "score q1 q2 q3 th ts = Inr ts2 \<Longrightarrow> t2 \<in> set ts2 \<Longrightarrow>
     \<exists>t\<in>set ts. score_triple q1 q2 q3 th t = Inr t2"
proof (induction ts arbitrary: ts2)
  case Nil
  then show ?case by simp
next
  case (Cons t ts)
  from Cons.prems(1) obtain u us where
    u: "score_triple q1 q2 q3 th t = Inr u" and us: "score q1 q2 q3 th ts = Inr us"
    and ts2: "ts2 = u # us"
    by (auto split: sum.splits)
  show ?case
  proof (cases "t2 = u")
    case True
    with u show ?thesis by simp
  next
    case False
    then have "t2 \<in> set us"
      using Cons.prems(2) ts2 by simp
    from Cons.IH [OF us this] show ?thesis by auto
  qed
qed

lemma structural_transfer:
  "structural al rmin rmax t \<Longrightarrow> w1 t2 = w1 t \<Longrightarrow> w2 t2 = w2 t \<Longrightarrow> w3 t2 = w3 t
     \<Longrightarrow> correction_ratio t2 = correction_ratio t \<Longrightarrow> structural al rmin rmax t2"
  by (simp add: structural_def)

lemma valid_after_score:
  assumes "find_triples al rmin rmax ws = Inr ts" and "score q1 q2 q3 th ts = Inr ts2"
    and "t2 \<in> set ts2" and "is_valid t2"
  shows "structural al rmin rmax t2 \<and> th \<le> quality_score t2"
proof -
  from score_mem [OF assms(2,3)] obtain t where
    t: "t \<in> set ts" "score_triple q1 q2 q3 th t = Inr t2"
    by blast
  note f = score_triple_fields [OF t(2)]
  from f assms(4) have v: "is_valid t" and q: "th \<le> quality_score t2"
    by simp_all
  from find_triples_mem [OF assms(1) t(1)] obtain a b c where
    "make_triple al rmin rmax a b c = Inr t"
    by blast
  from make_triple_fields [OF this] v have "structural al rmin rmax t"
    by simp
  then have "structural al rmin rmax t2"
    using f by (intro structural_transfer [of al rmin rmax t t2]) simp_all
  with q show ?thesis by simp
qed

lemmas triple_eval = make_triple_def py_truediv_def eps_def Let_def
  score_triple_def f_ratio_def f_symmetry_def f_slope_def
  scenario2_w1_def scenario2_w2_def scenario2_w3_def scenario2_triples_def scenario2_scored_def

lemmas run_eval = run_def load_series_def smooth_def ewm_mean_def detect_def detect_col_def
  np_diff_prepend_def scan_def scan_step_def filter_alternating_def alt_step_def build_def
  build_wave_def classify_def np_mean_def assign_def default_config_def savgol_filter_def
  identity_filters_def ema_config_def reversal_prices_def upt_conv_Cons

lemma scenario2_from_extrema:
  "map_sum id (classify (85 / 100) (70 / 100))
     (build [\<lparr>index = 1, time = 1, price = 0, kind = Minimum\<rparr>,
             \<lparr>index = 4, time = 4, price = 100, kind = Maximum\<rparr>,
             \<lparr>index = 7, time = 7, price = 382 / 10, kind = Minimum\<rparr>,
             \<lparr>index = 10, time = 10, price = 1382 / 10, kind = Maximum\<rparr>])
   = Inr [scenario2_w1, scenario2_w2, scenario2_w3]"
  by (simp add: build_def build_wave_def classify_def np_mean_def triple_eval)

lemma reversal_smoothed:
  "ewm_mean 11 reversal_prices = [10, 0, 30, 60, 100, 90, 70, 50, 60, - 60, - 50, - 55]"
  by (simp add: ewm_mean_def reversal_prices_def)

text \<open>
  C1, as the code has it.  The claim that a valid triple has \<open>w1.direction\<close> equal
  to \<open>w3.direction\<close> fails in the output of the whole pipeline: under EMA smoothing
  the twelve prices give the extrema min 0, max 100, min 50 and max -50 (the two
  turns between the last two lie closer than \<open>min_distance\<close> and are skipped), so
  the third wave runs from a minimum down to a maximum.  Its triple is valid with
  score about 0.70, \<open>w1\<close> up and \<open>w3\<close> down.
\<close>

theorem reversal_counterexample:
  "map is_valid (triples (projr (run identity_filters ema_config reversal_prices None))) = [True]
   \<and> map (direction \<circ> w1) (triples (projr (run identity_filters ema_config reversal_prices None)))
       = [Up]
   \<and> map (direction \<circ> w3) (triples (projr (run identity_filters ema_config reversal_prices None)))
       = [Down]"
  by (simp add: run_eval triple_eval)

text \<open>
  C1, amended.  Every triple that is valid after \<open>score\<close> has its correction ratio
  within \<open>[r_min, r_max]\<close>, \<open>w3.amplitude \<ge> alpha * w1.amplitude\<close>, \<open>w1\<close> and \<open>w2\<close> of
  different directions, and a quality score of at least the threshold; \<open>w1\<close> and \<open>w3\<close>
  have the same direction whenever \<open>w2\<close> and \<open>w3\<close> differ in direction.
\<close>

theorem valid_triple_properties:
  assumes "find_triples al rmin rmax ws = Inr ts" and "score q1 q2 q3 th ts = Inr ts2"
    and "t \<in> set ts2" and "is_valid t"
  shows "rmin \<le> correction_ratio t \<and> correction_ratio t \<le> rmax
     \<and> al * amplitude (w1 t) \<le> amplitude (w3 t)
     \<and> direction (w1 t) \<noteq> direction (w2 t)
     \<and> th \<le> quality_score t
     \<and> (direction (w2 t) \<noteq> direction (w3 t) \<longrightarrow> direction (w1 t) = direction (w3 t))"
proof -
  from valid_after_score [OF assms] have s: "structural al rmin rmax t" and q: "th \<le> quality_score t"
    by simp_all
  have "direction (w2 t) \<noteq> direction (w3 t) \<longrightarrow> direction (w1 t) = direction (w3 t)"
    using s by (cases "direction (w1 t)"; cases "direction (w2 t)"; cases "direction (w3 t)")
      (simp_all add: structural_def)
  with s q show ?thesis
    by (simp add: structural_def)
qed

theorem valid_triple_properties_witness:
  "find_triples (618 / 1000) (3 / 10) (8 / 10) [scenario2_w1, scenario2_w2, scenario2_w3]
     = Inr scenario2_triples
   \<and> score (4 / 10) (3 / 10) (3 / 10) (55 / 100) scenario2_triples = Inr scenario2_scored
   \<and> hd scenario2_scored \<in> set scenario2_scored \<and> is_valid (hd scenario2_scored)
   \<and> 3 / 10 \<le> correction_ratio (hd scenario2_scored)
   \<and> correction_ratio (hd scenario2_scored) \<le> 8 / 10
   \<and> 55 / 100 \<le> quality_score (hd scenario2_scored)
   \<and> direction (w1 (hd scenario2_scored)) = direction (w3 (hd scenario2_scored))"
  using valid_triple_properties [where al = "618 / 1000" and rmin = "3 / 10" and rmax = "8 / 10"
      and ws = "[scenario2_w1, scenario2_w2, scenario2_w3]" and ts = scenario2_triples
      and ?q1.0 = "4 / 10" and ?q2.0 = "3 / 10" and ?q3.0 = "3 / 10" and th = "55 / 100"
      and ?ts2.0 = scenario2_scored and t = "hd scenario2_scored"]
  by (simp add: triple_eval)

text \<open>
  C7, as the code has it.  In scenario 2 the triple is valid, but the ratio fit is
  not 1: the ratio is \<open>61.8 / (100 + 1e-9)\<close>, not 0.618.
\<close>

theorem ratio_fit_counterexample:
  "map amplitude [scenario2_w1, scenario2_w2, scenario2_w3] = [100, 618 / 10, 100]
   \<and> map direction [scenario2_w1, scenario2_w2, scenario2_w3] = [Up, Down, Up]
   \<and> map wave_type [scenario2_w1, scenario2_w2, scenario2_w3] = [Impulse, Correction, Impulse]
   \<and> map is_valid scenario2_triples = [True]
   \<and> map f_ratio scenario2_triples \<noteq> [1]"
  by (simp add: triple_eval)

text \<open>
  C7, amended.  For three waves of amplitudes 100, 61.8 and 100, directions up,
  down, up and types impulse, correction, impulse, \<open>find_triples\<close> with the default
  parameters returns one valid triple; its correction ratio is
  \<open>61.8 / (100 + 1e-9)\<close> and its ratio fit \<open>1 - (0.618 - R) / 0.318\<close> lies strictly
  between \<open>1 - 1e-10\<close> and 1.
\<close>

theorem golden_triple:
  assumes "amplitude a = 100" and "amplitude b = 618 / 10" and "amplitude c = 100"
    and "direction a = Up" and "direction b = Down" and "direction c = Up"
    and "wave_type a = Impulse" and "wave_type b = Correction" and "wave_type c = Impulse"
  shows "\<exists>t. find_triples (618 / 1000) (3 / 10) (8 / 10) [a, b, c] = Inr [t] \<and> is_valid t
      \<and> correction_ratio t = (618 / 10) / (100 + eps)
      \<and> f_ratio t = 1 - (618 / 1000 - correction_ratio t) / (318 / 1000)
      \<and> f_ratio t < 1 \<and> 1 - 1 / 10 ^ 10 < f_ratio t"
  using assms by (simp add: make_triple_def py_truediv_def eps_def Let_def f_ratio_def)

theorem golden_triple_witness:
  "amplitude scenario2_w1 = 100 \<and> amplitude scenario2_w2 = 618 / 10 \<and> amplitude scenario2_w3 = 100
   \<and> direction scenario2_w1 = Up \<and> direction scenario2_w2 = Down \<and> direction scenario2_w3 = Up
   \<and> wave_type scenario2_w1 = Impulse \<and> wave_type scenario2_w2 = Correction
   \<and> wave_type scenario2_w3 = Impulse
   \<and> map is_valid scenario2_triples = [True]
   \<and> map f_ratio scenario2_triples = [1 - 103 / 5300000000053]"
  using golden_triple [of scenario2_w1 scenario2_w2 scenario2_w3]
  by (simp add: triple_eval)

section \<open>Properties of \<open>PhaseModel.assign\<close>\<close>

lemmas assign_eval = assign_def last_valid_def bar_wave_def late_triple_def early_triple_def Let_def

lemma sorted_wrt_last:
  "sorted_wrt P xs \<Longrightarrow> x \<in> set xs \<Longrightarrow> x = last xs \<or> P x (last xs)"
  by (induction xs) auto

lemma last_valid_highest:
  assumes "sorted_wrt (\<lambda>a b. index (wend (w3 a)) \<le> index (wend (w3 b))) ts"
    and "t \<in> set ts" and "is_valid t"
  shows "index (wend (w3 t)) \<le> index (wend (w3 (last_valid ts)))"
proof -
  have "sorted_wrt (\<lambda>a b. index (wend (w3 a)) \<le> index (wend (w3 b))) (filter is_valid ts)"
    using assms(1) by (rule sorted_wrt_filter)
  moreover have "t \<in> set (filter is_valid ts)"
    using assms(2,3) by simp
  ultimately have "t = last (filter is_valid ts)
      \<or> index (wend (w3 t)) \<le> index (wend (w3 (last (filter is_valid ts))))"
    by (rule sorted_wrt_last)
  then show ?thesis
    by (auto simp: last_valid_def)
qed

lemma assign_none:
  "filter is_valid ts = [] \<Longrightarrow> assign ts c = ((0, ''No valid structure found''), ts)"
  by (simp add: assign_def)

lemma assign_some:
  assumes "filter is_valid ts \<noteq> []" and "assign ts c = ((ph, desc), ts2)"
  shows "ph = (if c \<le> index (wend (w1 (last_valid ts))) then 1
               else if c \<le> index (wend (w2 (last_valid ts))) then 2 else 3)"
    and "ts2 = map (\<lambda>t. if is_valid t then t\<lparr>phase := ph\<rparr> else t) ts"
  using assms by (auto simp: assign_def last_valid_def Let_def split: if_splits)

text \<open>
  C5, as the code has it.  \<open>assign\<close> takes the last valid triple of the list, which
  need not be the valid triple with the highest \<open>w3.end.index\<close>: of two valid
  triples, the one ending at bar 30 listed before the one ending at bar 3, the
  claim selects the first and gives phase 2 at bar 15; the code gives phase 3.
\<close>

theorem assign_order_counterexample:
  "is_valid late_triple \<and> is_valid early_triple
   \<and> index (wend (w3 early_triple)) < index (wend (w3 late_triple))
   \<and> index (wend (w1 late_triple)) < 15 \<and> 15 \<le> index (wend (w2 late_triple))
   \<and> fst (fst (assign [late_triple, early_triple] 15)) = 3"
  by (simp add: assign_eval)

text \<open>
  C5, amended.  With no valid triple \<open>assign\<close> returns phase 0 and the description
  \<open>No valid structure found\<close> and changes nothing.  Otherwise, with \<open>last\<close> the
  last valid triple in list order, it returns phase 1 if \<open>c \<le> last.w1.end.index\<close>,
  phase 2 if \<open>last.w1.end.index < c \<le> last.w2.end.index\<close> and phase 3 otherwise, and
  writes that phase onto every valid triple and onto no other.  When the list is
  ordered by \<open>w3.end.index\<close>, \<open>last\<close> has the highest \<open>w3.end.index\<close> of the valid
  triples.
\<close>

theorem assign_phase:
  assumes "assign ts c = ((ph, desc), ts2)"
  shows "(filter is_valid ts = [] \<longrightarrow>
            ph = 0 \<and> desc = ''No valid structure found'' \<and> ts2 = ts)
     \<and> (filter is_valid ts \<noteq> [] \<longrightarrow>
            (c \<le> index (wend (w1 (last_valid ts))) \<longrightarrow> ph = 1)
          \<and> (index (wend (w1 (last_valid ts))) < c \<and> c \<le> index (wend (w2 (last_valid ts)))
                \<longrightarrow> ph = 2)
          \<and> (index (wend (w1 (last_valid ts))) < c \<and> index (wend (w2 (last_valid ts))) < c
                \<longrightarrow> ph = 3)
          \<and> ts2 = map (\<lambda>t. if is_valid t then t\<lparr>phase := ph\<rparr> else t) ts
          \<and> is_valid (last_valid ts) \<and> last_valid ts \<in> set ts
          \<and> (sorted_wrt (\<lambda>a b. index (wend (w3 a)) \<le> index (wend (w3 b))) ts \<longrightarrow>
                (\<forall>t\<in>set ts. is_valid t \<longrightarrow>
                   index (wend (w3 t)) \<le> index (wend (w3 (last_valid ts))))))"
proof (cases "filter is_valid ts = []")
  case True
  with assms assign_none [OF True, of c] show ?thesis by simp
next
  case False
  have "last (filter is_valid ts) \<in> set (filter is_valid ts)"
    using False by (rule last_in_set)
  then have lv: "is_valid (last_valid ts)" "last_valid ts \<in> set ts"
    by (simp_all add: last_valid_def)
  from assign_some [OF False assms] lv last_valid_highest [of ts] False
  show ?thesis by auto
qed

theorem assign_phase_witness:
  "assign [late_triple] 20 = ((2, desc_phase2), [late_triple\<lparr>phase := 2\<rparr>])
   \<and> filter is_valid [late_triple] \<noteq> []
   \<and> index (wend (w1 (last_valid [late_triple]))) < 20
   \<and> 20 \<le> index (wend (w2 (last_valid [late_triple])))"
  using assign_phase [where ts = "[late_triple]" and c = 20 and ph = 2 and desc = desc_phase2
      and ?ts2.0 = "[late_triple\<lparr>phase := 2\<rparr>]"]
  by (simp add: assign_eval)

section \<open>Properties of \<open>FractalityAnalyzer.self_similarity\<close>\<close>

lemma self_similarity_equal_amplitudes:
  "self_similarity [bar_wave 0 1, bar_wave 1 2] [bar_wave 0 1]
     = \<lparr>coefficient = Some 1, cv = Some (Finite 0), stable = True, n_pairs = Some 2\<rparr>"
  by (simp add: self_similarity_def collect_ratios_def np_median_def np_std_def np_mean_def
      np_divide_def bar_wave_def eps_def Let_def)

text \<open>
  C6.  \<open>self_similarity\<close> returns \<open>stable\<close> true exactly when it has computed a
  coefficient of variation and that is below 0.3; when a list is empty or no ratio
  is collected it returns the coefficient \<open>None\<close> and \<open>stable\<close> false; otherwise the
  coefficient is the median of the ratios and the coefficient of variation is
  \<open>std / (mean + 1e-9)\<close>.
\<close>

theorem self_similarity_stable:
  "(stable (self_similarity A B)
      \<longleftrightarrow> (\<exists>c. cv (self_similarity A B) = Some c \<and> np_less c (3 / 10)))
   \<and> (A = [] \<or> B = [] \<or> collect_ratios A B = [] \<longrightarrow>
         coefficient (self_similarity A B) = None \<and> \<not> stable (self_similarity A B))
   \<and> (A \<noteq> [] \<and> B \<noteq> [] \<and> collect_ratios A B \<noteq> [] \<longrightarrow>
         coefficient (self_similarity A B) = Some (np_median (collect_ratios A B))
         \<and> cv (self_similarity A B)
             = Some (np_divide (np_std (collect_ratios A B)) (np_mean (collect_ratios A B) + eps)))"
  by (simp add: self_similarity_def Let_def)

theorem self_similarity_stable_witness:
  "([bar_wave 0 1] = [] \<or> ([] :: wave list) = [] \<or> collect_ratios [bar_wave 0 1] [] = [])
   \<and> coefficient (self_similarity [bar_wave 0 1] []) = None
   \<and> \<not> stable (self_similarity [bar_wave 0 1] [])"
  using self_similarity_stable [of "[bar_wave 0 1]" "[]"]
  by blast

section \<open>Properties of \<open>PatternSystem.run\<close>\<close>

lemma length_ewm_from: "length (ewm_from a y xs) = length xs"
  by (induction xs arbitrary: y) simp_all

lemma length_ewm_mean: "length (ewm_mean sp p) = length p"
  by (cases p) (simp_all add: ewm_mean_def length_ewm_from)

lemma load_series_close: "load_series prices tms = Inr df0 \<Longrightarrow> df_close df0 = prices"
  by (auto simp: load_series_def Let_def split: if_splits)


lemma smooth_ema:
  "smooth lib ''ema'' window poly df
     = Inr (df\<lparr>df_smooth := Some (ewm_mean (max window 5) (df_close df))\<rparr>)"
  by (simp add: smooth_def Let_def length_ewm_mean)

lemma smooth_col:
  assumes "smooth lib method window poly df = Inr df2"
  shows "length (detect_col df2) = length (df_close df) \<and> df_close df2 = df_close df"
proof -
  define s where "s = (if method = ''ema'' then Inr (ewm_mean (max window 5) (df_close df))
       else if method = ''gaussian''
         then gaussian_filter1d lib (df_close df) (real_of_int (max window 5) / 4)
       else savgol_filter lib (df_close df)
              (max (if max window 5 mod 2 = 1 then max window 5 else max window 5 + 1) (poly + 2))
              poly)"
  have sm: "smooth lib method window poly df =
      (case s of Inl err \<Rightarrow> Inl err
       | Inr sm \<Rightarrow> if length sm \<noteq> length (df_close df) then Inl ValueError
                  else Inr (df\<lparr>df_smooth := Some sm\<rparr>))"
    by (simp add: smooth_def Let_def s_def)
  show ?thesis
  proof (cases s)
    case (Inl err)
    with sm assms show ?thesis by simp
  next
    case (Inr sm')
    with sm assms have "length sm' = length (df_close df)" and "df2 = df\<lparr>df_smooth := Some sm'\<rparr>"
      by (auto split: if_splits)
    then show ?thesis by (simp add: detect_col_def)
  qed
qed

lemma smooth_savgol_short:
  assumes "method \<noteq> ''ema''" and "method \<noteq> ''gaussian''"
    and "int (length (df_close df)) < max window 5"
  shows "smooth lib method window poly df = Inl ValueError"
proof -
  have "int (length (df_close df))
      < max (if max window 5 mod 2 = 1 then max window 5 else max window 5 + 1) (poly + 2)"
    using assms(3) by auto
  then show ?thesis
    using assms(1,2) by (simp add: smooth_def savgol_filter_def Let_def)
qed

lemma build_wave_ok: "build_wave j s e = Inr w \<Longrightarrow> wave_ok w"
proof -
  assume b: "build_wave j s e = Inr w"
  have "0 < eps" by (simp add: eps_def)
  then have pos: "0 < (if \<bar>time e - time s\<bar> = 0 then eps else \<bar>time e - time s\<bar>)"
    by simp
  have "amplitude w = \<bar>price e - price s\<bar>"
    and "duration w = (if \<bar>time e - time s\<bar> = 0 then eps else \<bar>time e - time s\<bar>)"
    using b pos by (auto simp: build_wave_def py_truediv_def Let_def split: if_splits)
  with pos show ?thesis
    by (simp add: wave_ok_def)
qed

lemma build_from_ok: "build_from j es = Inr ws \<Longrightarrow> w \<in> set ws \<Longrightarrow> wave_ok w"
proof (induction j es arbitrary: ws rule: build_from.induct)
  case (1 j s e rest)
  from "1.prems"(1) obtain w0 ws0 where
    w0: "build_wave j s e = Inr w0" and ws0: "build_from (Suc j) (e # rest) = Inr ws0"
    and ws: "ws = w0 # ws0"
    by (auto split: sum.splits)
  show ?case
  proof (cases "w = w0")
    case True
    with build_wave_ok [OF w0] show ?thesis by simp
  next
    case False
    then have "w \<in> set ws0" using "1.prems"(2) ws by simp
    from "1.IH" [OF w0 ws0 this] show ?thesis .
  qed
qed simp_all

lemma classify_ok: "\<forall>w\<in>set ws. wave_ok w \<Longrightarrow> \<forall>w\<in>set (classify l1 l2 ws). wave_ok w"
  by (auto simp: classify_def Let_def wave_ok_def)

lemma classify_Nil: "classify l1 l2 [] = []"
  by (simp add: classify_def)

lemma make_triple_total:
  assumes "wave_ok a"
  shows "\<exists>t. make_triple al rmin rmax a b c = Inr t \<and> w1 t = a \<and> w3 t = c"
proof -
  have "amplitude a + eps \<noteq> 0"
    using assms by (simp add: wave_ok_def eps_def)
  then show ?thesis
    by (simp add: make_triple_def py_truediv_def Let_def)
qed

lemma find_triples_total:
  "\<forall>w\<in>set ws. wave_ok w \<Longrightarrow>
     \<exists>ts. find_triples al rmin rmax ws = Inr ts
        \<and> (\<forall>t\<in>set ts. wave_ok (w1 t) \<and> wave_ok (w3 t))"
proof (induction al rmin rmax ws rule: find_triples.induct)
  case (1 al rmin rmax a b c rest)
  from make_triple_total [of a al rmin rmax b c] "1.prems" obtain t where
    t: "make_triple al rmin rmax a b c = Inr t" "w1 t = a" "w3 t = c"
    by auto
  have "\<forall>w\<in>set (b # c # rest). wave_ok w"
    using "1.prems" by simp
  from "1.IH" [OF t(1) this] obtain ts where
    ts: "find_triples al rmin rmax (b # c # rest) = Inr ts"
      "\<forall>t\<in>set ts. wave_ok (w1 t) \<and> wave_ok (w3 t)"
    by blast
  show ?case
    using t ts "1.prems" by simp
qed simp_all

lemma score_triple_total:
  assumes "wave_ok (w1 t)" and "wave_ok (w3 t)"
  shows "\<exists>t2. score_triple q1 q2 q3 th t = Inr t2"
proof -
  have "0 < max (duration (w1 t)) (duration (w3 t)) + eps"
    using assms by (simp add: wave_ok_def eps_def max_def)
  then have "\<exists>fs. f_symmetry t = Inr fs"
    by (simp add: f_symmetry_def py_truediv_def Let_def)
  then show ?thesis
    by (auto simp: score_triple_def Let_def)
qed

lemma score_total:
  "\<forall>t\<in>set ts. wave_ok (w1 t) \<and> wave_ok (w3 t) \<Longrightarrow> \<exists>ts2. score q1 q2 q3 th ts = Inr ts2"
proof (induction ts)
  case Nil
  then show ?case by simp
next
  case (Cons t ts)
  from score_triple_total [of t q1 q2 q3 th] Cons.prems obtain t2 where
    "score_triple q1 q2 q3 th t = Inr t2" by auto
  moreover from Cons obtain ts2 where "score q1 q2 q3 th ts = Inr ts2" by auto
  ultimately show ?case by simp
qed




text \<open>The stages after smoothing never raise on a frame with a non-empty column.\<close>

lemma run_after_smooth:
  assumes l: "load_series prices tms = Inr df0"
    and s: "smooth lib (smooth_method cfg) (smooth_window cfg) (smooth_poly cfg) df0 = Inr df"
    and ne: "prices \<noteq> []"
  shows "\<exists>r. run lib cfg prices tms = Inr r"
proof -
  have "detect_col df \<noteq> []"
    using smooth_col [OF s] load_series_close [OF l] ne by auto
  from detect_returns [OF this] obtain es where es: "detect (min_ext_dist cfg) df = Inr es"
    by blast
  obtain ws0 where ws0: "build es = Inr ws0"
    using build_from_total [of 0 es] by (auto simp: build_def)
  have ok0: "\<forall>w\<in>set ws0. wave_ok w"
    using ws0 build_from_ok by (auto simp: build_def)
  define ws where "ws = classify (lambda1 cfg) (lambda2 cfg) ws0"
  have "\<forall>w\<in>set ws. wave_ok w"
    unfolding ws_def using ok0 by (rule classify_ok)
  from find_triples_total [OF this] obtain ts0 where
    ts0: "find_triples (alpha cfg) (r_min cfg) (r_max cfg) ws = Inr ts0"
      "\<forall>t\<in>set ts0. wave_ok (w1 t) \<and> wave_ok (w3 t)"
    by blast
  from score_total [OF ts0(2)] obtain ts1 where
    ts1: "score (quality_w1 cfg) (quality_w2 cfg) (quality_w3 cfg) (quality_thresh cfg) ts0
            = Inr ts1"
    by blast
  show ?thesis
    using l s es ws0 ts0(1) ts1
    by (simp add: run_def ws_def [symmetric] Let_def split: prod.splits)
qed

lemma run_smooth_raises:
  assumes "load_series prices tms = Inr df0"
    and "smooth lib (smooth_method cfg) (smooth_window cfg) (smooth_poly cfg) df0 = Inl e"
  shows "run lib cfg prices tms = Inl e"
  using assms by (simp add: run_def)



lemma load_series_mismatch:
  "length t \<noteq> length prices \<Longrightarrow> load_series prices (Some t) = Inl ValueError"
  by (simp add: load_series_def)

lemma load_series_returns:
  "tms = None \<or> (\<exists>t. tms = Some t \<and> length t = length prices)
     \<Longrightarrow> \<exists>df0. load_series prices tms = Inr df0"
  by (auto simp: load_series_def)

lemma run_load_raises: "load_series prices tms = Inl e \<Longrightarrow> run lib cfg prices tms = Inl e"
  by (simp add: run_def)

text \<open>
  C3, as the code has it.  With the default configuration (Savitzky-Golay, window
  11) a series of five prices makes \<open>run\<close> raise \<open>ValueError\<close>: the filter refuses a
  window longer than the data.  Neither \<open>run\<close> nor any constructor checks a length
  or a parameter.
\<close>

theorem short_series_counterexample:
  "run identity_filters default_config [1, 2, 3, 4, 5] None = Inl ValueError"
  by (simp add: run_def load_series_def smooth_def savgol_filter_def default_config_def)

text \<open>
  C3, amended.  For every non-empty price series: when time stamps are given
  whose number is not the number of prices, \<open>run\<close> raises \<open>ValueError\<close> (building
  the frame in \<open>load_series\<close>); otherwise \<open>run\<close> raises nothing under the method
  \<open>ema\<close>; under the other two methods it raises exactly what the SciPy filter or
  the assignment of its result raises, and nothing when they raise nothing; under
  Savitzky-Golay a series shorter than \<open>max(window, 5)\<close> raises \<open>ValueError\<close>.
\<close>

theorem run_exceptions:
  assumes "prices \<noteq> []"
  shows "(\<forall>t. tms = Some t \<and> length t \<noteq> length prices
            \<longrightarrow> run lib cfg prices tms = Inl ValueError)
     \<and> (tms = None \<or> (\<exists>t. tms = Some t \<and> length t = length prices) \<longrightarrow>
          (\<exists>df0. load_series prices tms = Inr df0
             \<and> (smooth_method cfg = ''ema'' \<longrightarrow> (\<exists>r. run lib cfg prices tms = Inr r))
             \<and> (\<forall>df. smooth lib (smooth_method cfg) (smooth_window cfg) (smooth_poly cfg) df0
                         = Inr df
                    \<longrightarrow> (\<exists>r. run lib cfg prices tms = Inr r))
             \<and> (\<forall>e. smooth lib (smooth_method cfg) (smooth_window cfg) (smooth_poly cfg) df0
                        = Inl e
                    \<longrightarrow> run lib cfg prices tms = Inl e)
             \<and> (smooth_method cfg \<noteq> ''ema'' \<and> smooth_method cfg \<noteq> ''gaussian''
                  \<and> int (length prices) < max (smooth_window cfg) 5
                    \<longrightarrow> run lib cfg prices tms = Inl ValueError)))"
proof -
  have mismatch: "run lib cfg prices tms = Inl ValueError"
    if "tms = Some t" "length t \<noteq> length prices" for t
    using that load_series_mismatch [of t prices] run_load_raises by simp
  have loaded: "\<exists>df0. load_series prices tms = Inr df0
      \<and> (smooth_method cfg = ''ema'' \<longrightarrow> (\<exists>r. run lib cfg prices tms = Inr r))
      \<and> (\<forall>df. smooth lib (smooth_method cfg) (smooth_window cfg) (smooth_poly cfg) df0 = Inr df
             \<longrightarrow> (\<exists>r. run lib cfg prices tms = Inr r))
      \<and> (\<forall>e. smooth lib (smooth_method cfg) (smooth_window cfg) (smooth_poly cfg) df0 = Inl e
             \<longrightarrow> run lib cfg prices tms = Inl e)
      \<and> (smooth_method cfg \<noteq> ''ema'' \<and> smooth_method cfg \<noteq> ''gaussian''
           \<and> int (length prices) < max (smooth_window cfg) 5
             \<longrightarrow> run lib cfg prices tms = Inl ValueError)"
    if ok: "tms = None \<or> (\<exists>t. tms = Some t \<and> length t = length prices)"
  proof -
    from load_series_returns [OF ok] obtain df0 where l: "load_series prices tms = Inr df0"
      by blast
    have a: "\<exists>r. run lib cfg prices tms = Inr r" if "smooth_method cfg = ''ema''"
      using run_after_smooth [OF l _ assms, of lib cfg] that smooth_ema by simp
    have b: "\<exists>r. run lib cfg prices tms = Inr r"
      if "smooth lib (smooth_method cfg) (smooth_window cfg) (smooth_poly cfg) df0 = Inr df"
      for df
      using run_after_smooth [OF l that assms] .
    have c: "run lib cfg prices tms = Inl e"
      if "smooth lib (smooth_method cfg) (smooth_window cfg) (smooth_poly cfg) df0 = Inl e"
      for e
      using run_smooth_raises [OF l that] .
    have d: "run lib cfg prices tms = Inl ValueError"
      if "smooth_method cfg \<noteq> ''ema''" "smooth_method cfg \<noteq> ''gaussian''"
        "int (length prices) < max (smooth_window cfg) 5"
      using run_smooth_raises [OF l] smooth_savgol_short [of "smooth_method cfg" df0] that
        load_series_close [OF l] by simp
    from l a b c d show ?thesis by blast
  qed
  from mismatch loaded show ?thesis by blast
qed

theorem run_exceptions_witness:
  "reversal_prices \<noteq> [] \<and> smooth_method ema_config = ''ema''
   \<and> (\<exists>r. run identity_filters ema_config reversal_prices None = Inr r)
   \<and> length [0 :: real] \<noteq> length reversal_prices
   \<and> run identity_filters ema_config reversal_prices (Some [0]) = Inl ValueError"
  using run_exceptions [where prices = reversal_prices and tms = None and cfg = ema_config
      and lib = identity_filters]
    run_exceptions [where prices = reversal_prices and tms = "Some [0]" and cfg = ema_config
      and lib = identity_filters]
  by (auto simp: reversal_prices_def ema_config_def)




section \<open>The order of the triples in a result of \<open>run\<close>\<close>

lemma build_from_wend: "build_from j es = Inr ws \<Longrightarrow> map wend ws = tl es"
proof (induction j es arbitrary: ws rule: build_from.induct)
  case (1 j s e rest)
  from "1.prems" obtain w0 ws0 where
    w0: "build_wave j s e = Inr w0" and ws0: "build_from (Suc j) (e # rest) = Inr ws0"
    and ws: "ws = w0 # ws0"
    by (auto split: sum.splits)
  from "1.IH" [OF w0 ws0] build_wave_fields [OF w0] ws show ?case
    by simp
qed simp_all

lemma classify_wend: "map wend (classify l1 l2 ws) = map wend ws"
  by (simp add: classify_def Let_def comp_def)

lemma find_triples_w3: "find_triples al rmin rmax ws = Inr ts \<Longrightarrow> map w3 ts = drop 2 ws"
proof (induction al rmin rmax ws arbitrary: ts rule: find_triples.induct)
  case (1 al rmin rmax a b c rest)
  from "1.prems" obtain t0 ts0 where
    t0: "make_triple al rmin rmax a b c = Inr t0"
    and ts0: "find_triples al rmin rmax (b # c # rest) = Inr ts0"
    and ts: "ts = t0 # ts0"
    by (auto split: sum.splits)
  from "1.IH" [OF t0 ts0] make_triple_fields [OF t0] ts show ?case
    by simp
qed simp_all

lemma score_w3: "score q1 q2 q3 th ts = Inr ts2 \<Longrightarrow> map w3 ts2 = map w3 ts"
proof (induction ts arbitrary: ts2)
  case Nil
  then show ?case by simp
next
  case (Cons t ts)
  from Cons.prems obtain u us where
    u: "score_triple q1 q2 q3 th t = Inr u" and us: "score q1 q2 q3 th ts = Inr us"
    and ts2: "ts2 = u # us"
    by (auto split: sum.splits)
  from Cons.IH [OF us] score_triple_fields [OF u] ts2 show ?case
    by simp
qed

lemma assign_w3: "map w3 (snd (assign ts c)) = map w3 ts"
  by (simp add: assign_def Let_def comp_def)

lemma assign_is_valid: "map is_valid (snd (assign ts c)) = map is_valid ts"
  by (simp add: assign_def Let_def comp_def)

lemma run_Inr:
  assumes "run lib cfg prices tms = Inr r"
  shows "\<exists>df es ws0 ts0 ts1.
      detect (min_ext_dist cfg) df = Inr es \<and> build es = Inr ws0
      \<and> find_triples (alpha cfg) (r_min cfg) (r_max cfg)
           (classify (lambda1 cfg) (lambda2 cfg) ws0) = Inr ts0
      \<and> score (quality_w1 cfg) (quality_w2 cfg) (quality_w3 cfg) (quality_thresh cfg) ts0 = Inr ts1
      \<and> extrema r = es \<and> waves r = classify (lambda1 cfg) (lambda2 cfg) ws0
      \<and> triples r = snd (assign ts1 (int (length (df_close df)) - 1))
      \<and> current_phase r = fst (fst (assign ts1 (int (length (df_close df)) - 1)))"
  using assms
  apply (auto simp: run_def Let_def split: sum.splits prod.splits)
  subgoal for df0 df es ws0 ts0 ts1 a b ts
    by (intro exI [of _ df] exI [of _ es] exI [of _ ws0] exI [of _ ts0] exI [of _ ts1]) simp
  done

text \<open>
  In every result of \<open>run\<close> the triples are listed by strictly increasing
  \<open>w3.end.index\<close>, so there the last valid triple is the one with the highest.
\<close>

lemma run_triples_ordered:
  assumes "run lib cfg prices tms = Inr r"
  shows "sorted_wrt (\<lambda>a b. index (wend (w3 a)) < index (wend (w3 b))) (triples r)"
proof -
  from run_Inr [OF assms] obtain df es ws0 ts0 ts1 where
    es: "detect (min_ext_dist cfg) df = Inr es" and ws0: "build es = Inr ws0"
    and ts0: "find_triples (alpha cfg) (r_min cfg) (r_max cfg)
           (classify (lambda1 cfg) (lambda2 cfg) ws0) = Inr ts0"
    and ts1: "score (quality_w1 cfg) (quality_w2 cfg) (quality_w3 cfg) (quality_thresh cfg) ts0
           = Inr ts1"
    and tr: "triples r = snd (assign ts1 (int (length (df_close df)) - 1))"
    by blast
  have "map w3 (triples r) = drop 2 (classify (lambda1 cfg) (lambda2 cfg) ws0)"
    using tr assign_w3 score_w3 [OF ts1] find_triples_w3 [OF ts0] by simp
  then have "map wend (map w3 (triples r))
      = drop 2 (map wend (classify (lambda1 cfg) (lambda2 cfg) ws0))"
    by (simp only: drop_map)
  then have "map wend (map w3 (triples r)) = drop 2 (map wend ws0)"
    by (simp only: classify_wend)
  also have "map wend ws0 = tl es"
    using ws0 by (simp add: build_def build_from_wend)
  finally have "map wend (map w3 (triples r)) = drop 2 (tl es)" .
  then have "map index (map wend (map w3 (triples r))) = map index (drop 2 (tl es))"
    by (simp only:)
  also have "\<dots> = drop 2 (tl (map index es))"
    by (simp only: map_tl [symmetric] drop_map)
  finally have "map index (map wend (map w3 (triples r))) = drop 2 (tl (map index es))" .
  moreover have "sorted_wrt (<) (drop 2 (tl (map index es)))"
    using scan_inv_detect [OF es]
    by (simp add: scan_inv_def drop_Suc [symmetric])
  ultimately have "sorted_wrt (<) (map (\<lambda>t. index (wend (w3 t))) (triples r))"
    by (simp add: comp_def)
  then show ?thesis
    by (simp add: sorted_wrt_map)
qed

lemma run_last_valid_highest:
  assumes "run lib cfg prices tms = Inr r" and "t \<in> set (triples r)" and "is_valid t"
  shows "index (wend (w3 t)) \<le> index (wend (w3 (last_valid (triples r))))"
proof -
  have "sorted_wrt (\<lambda>a b. index (wend (w3 a)) \<le> index (wend (w3 b))) (triples r)"
    using run_triples_ordered [OF assms(1)]
    by (rule sorted_wrt_mono_rel [rotated]) simp
  then show ?thesis
    using assms(2,3) by (rule last_valid_highest)
qed

end
